theory Spec2Isabelle
  imports Main "HOL-Library.Log_Nat" "HOL-Library.Multiset"
begin

section \<open>Python values used by the VegHolic backend\<close>

subsection \<open>Floats\<close>

text \<open>
  A Python \<open>float\<close> is an IEEE 754 binary64 value. A finite value is kept as the
  rational it denotes; the two zeros are not told apart (no operation of the
  program observes the sign of a zero). Every arithmetic operation computes the
  exact rational result and rounds it to the nearest binary64 value, ties to
  even, overflowing to an infinity.
\<close>

datatype pyfloat = Fin rat | PInf | NInf | NaN

definition round_half_even :: "rat \<Rightarrow> int" where
  "round_half_even x =
     (let f = \<lfloor>x\<rfloor>; d = x - of_int f
      in if d < 1 / 2 then f else if 1 / 2 < d then f + 1
         else if even f then f else f + 1)"

text \<open>The largest \<open>e\<close> with \<open>2 powi e \<le> q\<close>, for a positive \<open>q\<close>.\<close>

definition floor_log2 :: "rat \<Rightarrow> int" where
  "floor_log2 q =
     (let (a, b) = quotient_of q;
          g = int (floorlog 2 (nat a)) - int (floorlog 2 (nat b))
      in if 2 powi g \<le> q then g else g - 1)"

text \<open>
  Rounding to binary64: 53 significant bits, the least exponent of a unit in the
  last place is \<open>-1074\<close> (subnormals), and a rounded magnitude of \<open>2 ^ 1024\<close> or
  more is an infinity.
\<close>

definition nearest_double :: "rat \<Rightarrow> pyfloat" where
  "nearest_double q =
     (if q = 0 then Fin 0
      else let a = \<bar>q\<bar>;
               k = max (floor_log2 a - 52) (- 1074);
               m = round_half_even (a / 2 powi k);
               r = of_int m * 2 powi k
           in if 2 ^ 1024 \<le> r then (if 0 < q then PInf else NInf)
              else Fin (if 0 < q then r else - r))"

fun fmul :: "pyfloat \<Rightarrow> pyfloat \<Rightarrow> pyfloat" where
  "fmul NaN _ = NaN"
| "fmul _ NaN = NaN"
| "fmul (Fin a) (Fin b) = nearest_double (a * b)"
| "fmul (Fin a) PInf = (if a = 0 then NaN else if 0 < a then PInf else NInf)"
| "fmul (Fin a) NInf = (if a = 0 then NaN else if 0 < a then NInf else PInf)"
| "fmul PInf (Fin b) = (if b = 0 then NaN else if 0 < b then PInf else NInf)"
| "fmul NInf (Fin b) = (if b = 0 then NaN else if 0 < b then NInf else PInf)"
| "fmul PInf PInf = PInf"
| "fmul PInf NInf = NInf"
| "fmul NInf PInf = NInf"
| "fmul NInf NInf = PInf"

fun fadd :: "pyfloat \<Rightarrow> pyfloat \<Rightarrow> pyfloat" where
  "fadd NaN _ = NaN"
| "fadd _ NaN = NaN"
| "fadd (Fin a) (Fin b) = nearest_double (a + b)"
| "fadd (Fin a) PInf = PInf"
| "fadd (Fin a) NInf = NInf"
| "fadd PInf (Fin b) = PInf"
| "fadd NInf (Fin b) = NInf"
| "fadd PInf PInf = PInf"
| "fadd PInf NInf = NaN"
| "fadd NInf PInf = NaN"
| "fadd NInf NInf = NInf"

text \<open>\<open>x >= 0\<close> on floats: false for a NaN.\<close>

fun float_ge0 :: "pyfloat \<Rightarrow> bool" where
  "float_ge0 (Fin q) = (0 \<le> q)"
| "float_ge0 PInf = True"
| "float_ge0 NInf = False"
| "float_ge0 NaN = False"

text \<open>
  \<open>round(x, ndigits)\<close> for \<open>ndigits \<ge> 0\<close>: an infinity or a NaN rounds to itself; a
  finite value is rounded, from its exact value and ties to even, to \<open>ndigits\<close>
  decimal places, and the decimal is converted back to the nearest float.
  (The interpreter raises OverflowError when that conversion overflows; no
  binary64 value does, every one from \<open>2 ^ 52\<close> on being an integer.)
\<close>

fun py_round :: "pyfloat \<Rightarrow> nat \<Rightarrow> pyfloat" where
  "py_round (Fin q) ndigits =
     nearest_double (of_int (round_half_even (q * 10 ^ ndigits)) / 10 ^ ndigits)"
| "py_round x ndigits = x"

subsection \<open>Exceptions\<close>

text \<open>
  Every exception a handler can raise is a value. \<open>HTTPException\<close> carries the
  status code and the detail; the others are not caught anywhere and reach the
  caller as an internal server error.
\<close>

datatype error = HTTPException nat string | ValidationError | ValueError | OverflowError


fun InvalidArgument :: "error \<Rightarrow> bool" where
  "InvalidArgument (HTTPException code detail) = (code = 400)"
| "InvalidArgument e = False"

fun internal_error :: "error \<Rightarrow> bool" where
  "internal_error (HTTPException code detail) = False"
| "internal_error e = True"

text \<open>
  \<open>float(n)\<close> for an integer, as the multiplication of a float by an integer
  performs it: the nearest float, and OverflowError from the least magnitude
  that rounds beyond the largest finite float.
\<close>

definition float_of_int :: "int \<Rightarrow> error + pyfloat" where
  "float_of_int n =
     (if 2 ^ 1024 - 2 ^ 970 \<le> \<bar>n\<bar> then Inl OverflowError
      else Inr (nearest_double (of_int n)))"

subsection \<open>Dictionaries and lists\<close>

text \<open>\<open>d.get(k, default)\<close> on a dictionary given by its items.\<close>

definition dict_get :: "('k \<times> 'v) list \<Rightarrow> 'k \<Rightarrow> 'v \<Rightarrow> 'v" where
  "dict_get d k dflt = (case map_of d k of Some v \<Rightarrow> v | None \<Rightarrow> dflt)"

text \<open>\<open>xs.index(x)\<close>: the first position of \<open>x\<close>, ValueError when there is none.\<close>

fun list_index :: "'a list \<Rightarrow> 'a \<Rightarrow> error + nat" where
  "list_index [] x = Inl ValueError"
| "list_index (y # ys) x =
     (if y = x then Inr 0
      else case list_index ys x of Inl e \<Rightarrow> Inl e | Inr i \<Rightarrow> Inr (Suc i))"

subsection \<open>Object identifiers\<close>

text \<open>
  An \<open>ObjectId\<close> is twelve bytes, written as 24 hexadecimal digits; it is kept
  as its lower-case string form, which is what \<open>str\<close> gives. The constructor
  accepts a string of 24 hexadecimal digits in either case and rejects any other
  string; the helper \<open>oid\<close> turns the rejection into a 400.
\<close>

datatype objectid = ObjectId string

fun str_oid :: "objectid \<Rightarrow> string" where
  "str_oid (ObjectId h) = h"

definition hexdigit :: "char \<Rightarrow> bool" where
  "hexdigit c = (c \<in> set ''0123456789abcdefABCDEF'')"

definition lower_hex :: "char \<Rightarrow> char" where
  "lower_hex c =
     dict_get [(CHR ''A'', CHR ''a''), (CHR ''B'', CHR ''b''), (CHR ''C'', CHR ''c''),
               (CHR ''D'', CHR ''d''), (CHR ''E'', CHR ''e''), (CHR ''F'', CHR ''f'')] c c"

definition oid :: "string \<Rightarrow> error + objectid" where
  "oid id_str =
     (if length id_str = 24 \<and> list_all hexdigit id_str
      then Inr (ObjectId (map lower_hex id_str))
      else Inl (HTTPException 400 ''Invalid id format''))"

text \<open>
  The value of an \<open>_id\<close> field: an \<open>ObjectId\<close> in a stored document, a string
  once the document has been encoded for a response.
\<close>

datatype idval = Oid objectid | Str string

fun py_str :: "idval \<Rightarrow> string" where
  "py_str (Oid i) = str_oid i"
| "py_str (Str s) = s"

section \<open>Pricing\<close>

definition WEIGHT_MULTIPLIER :: "(string \<times> pyfloat) list" where
  "WEIGHT_MULTIPLIER =
     [(''250g'', Fin (1 / 4)), (''500g'', Fin (1 / 2)), (''1kg'', Fin 1), (''2kg'', Fin 2)]"

definition calc_price :: "pyfloat \<Rightarrow> string \<Rightarrow> pyfloat" where
  "calc_price price_per_kg variant =
     (let m = dict_get WEIGHT_MULTIPLIER variant (Fin 1)
      in py_round (fmul price_per_kg m) 2)"

section \<open>The record store\<close>

subsection \<open>Documents\<close>

text \<open>
  The collections hold the documents of the five schema classes. A stored
  document is the dump of a schema object (\<open>body\<close>) together with the \<open>_id\<close> the
  store assigned and the creation stamp. Fields that two classes share carry the
  initial of the class.
\<close>

record User =
  phone :: string
  u_name :: "string option"
  email :: "string option"
  default_address_id :: "string option"
  token :: "string option"

record Product =
  p_name :: string
  description :: "string option"
  price_per_kg :: pyfloat
  category :: string
  p_image_url :: "string option"
  variants :: "string list"

record Address =
  a_user_id :: string
  a_name :: string
  mobile :: string
  pincode :: string
  street :: string
  city :: string
  is_default :: bool

record CartItem =
  c_user_id :: string
  product_id :: string
  product_name :: string
  image_url :: "string option"
  variant :: string
  qty :: int
  price :: pyfloat

record 'a document =
  doc_id :: idval
  created_at :: int
  body :: 'a

record Order =
  o_user_id :: string
  items :: "CartItem document list"
  o_address_id :: string
  payment_method :: string
  total_amount :: pyfloat
  status :: string
  eta :: string

record database =
  db_user :: "User document list"
  db_product :: "Product document list"
  db_address :: "Address document list"
  db_cartitem :: "CartItem document list"
  db_order :: "Order document list"

subsection \<open>Operations of the store\<close>

text \<open>
  Modelled from the spec: the module \<open>database\<close> (the handle \<open>db\<close> and
  \<open>create_document\<close>) and the driver behind it are not among the sources. The
  operations are those the specification lists as consumed from the record
  store: \<open>insert(collection, document) -> id\<close>, \<open>findOne\<close>, \<open>findMany\<close> with an
  optional sort, \<open>updateOne\<close> and \<open>updateMany\<close> returning the matched count,
  \<open>deleteOne\<close> and \<open>deleteMany\<close> returning the deleted count. A collection is
  the list of its documents in insertion order; a filter is a predicate; the
  single-document operations act on the first match. The identifier the store
  assigns and the time of the insertion are supplied by the environment.
\<close>

definition create_document ::
  "'a document list \<Rightarrow> 'a \<Rightarrow> objectid \<Rightarrow> int \<Rightarrow> 'a document list \<times> string" where
  "create_document coll data new_id now =
     (coll @ [\<lparr>doc_id = Oid new_id, created_at = now, body = data\<rparr>], str_oid new_id)"

definition find_one :: "('d \<Rightarrow> bool) \<Rightarrow> 'd list \<Rightarrow> 'd option" where
  "find_one filt coll = List.find filt coll"

definition find_many :: "('d \<Rightarrow> bool) \<Rightarrow> 'd list \<Rightarrow> 'd list" where
  "find_many filt coll = filter filt coll"

fun update_one :: "('d \<Rightarrow> bool) \<Rightarrow> ('d \<Rightarrow> 'd) \<Rightarrow> 'd list \<Rightarrow> 'd list \<times> nat" where
  "update_one filt upd [] = ([], 0)"
| "update_one filt upd (d # ds) =
     (if filt d then (upd d # ds, 1)
      else (d # fst (update_one filt upd ds), snd (update_one filt upd ds)))"

definition update_many :: "('d \<Rightarrow> bool) \<Rightarrow> ('d \<Rightarrow> 'd) \<Rightarrow> 'd list \<Rightarrow> 'd list \<times> nat" where
  "update_many filt upd coll =
     (map (\<lambda>d. if filt d then upd d else d) coll, length (filter filt coll))"

fun delete_one :: "('d \<Rightarrow> bool) \<Rightarrow> 'd list \<Rightarrow> 'd list \<times> nat" where
  "delete_one filt [] = ([], 0)"
| "delete_one filt (d # ds) =
     (if filt d then (ds, 1)
      else (d # fst (delete_one filt ds), snd (delete_one filt ds)))"

definition delete_many :: "('d \<Rightarrow> bool) \<Rightarrow> 'd list \<Rightarrow> 'd list \<times> nat" where
  "delete_many filt coll = (filter (\<lambda>d. \<not> filt d) coll, length (filter filt coll))"

text \<open>
  \<open>sort("created_at", -1)\<close>: descending on the stamp. The store leaves the order
  of documents with equal stamps open; the model keeps them in collection order.
\<close>

definition sort_created_desc :: "'a document list \<Rightarrow> 'a document list" where
  "sort_created_desc ds = sort_key (\<lambda>d. - created_at d) ds"

subsection \<open>Encoding for a response\<close>

text \<open>
  \<open>ObjectIdEncoder.encode\<close> walks lists and dictionaries and replaces every
  \<open>ObjectId\<close> by its string. In an order document these are the \<open>_id\<close> of the
  order and the \<open>_id\<close> of each snapshotted cart line.
\<close>

fun encode_id :: "idval \<Rightarrow> idval" where
  "encode_id (Oid i) = Str (str_oid i)"
| "encode_id (Str s) = Str s"

definition encode_cartitem :: "CartItem document \<Rightarrow> CartItem document" where
  "encode_cartitem d = d\<lparr>doc_id := encode_id (doc_id d)\<rparr>"

definition encode_order :: "Order document \<Rightarrow> Order document" where
  "encode_order d =
     d\<lparr>doc_id := encode_id (doc_id d),
       body := (body d)\<lparr>items := map encode_cartitem (items (body d))\<rparr>\<rparr>"

section \<open>Request models\<close>

record AddToCartRequest =
  r_user_id :: string
  r_product_id :: string
  r_variant :: string
  r_qty :: int

record CreateOrderRequest =
  co_user_id :: string
  co_address_id :: string
  co_payment_method :: string

text \<open>
  The body of an address update is a free dictionary. The model keeps its
  entries for the fields of an address, each absent or present with a value of
  the field's type; keys that are no field of an address and values of other
  types are outside the model.
\<close>

record AddressPatch =
  set_user_id :: "string option"
  set_name :: "string option"
  set_mobile :: "string option"
  set_pincode :: "string option"
  set_street :: "string option"
  set_city :: "string option"
  set_is_default :: "bool option"

definition patch_empty :: "AddressPatch \<Rightarrow> bool" where
  "patch_empty p =
     (set_user_id p = None \<and> set_name p = None \<and> set_mobile p = None \<and>
      set_pincode p = None \<and> set_street p = None \<and> set_city p = None \<and>
      set_is_default p = None)"

definition opt_set :: "'v option \<Rightarrow> 'v \<Rightarrow> 'v" where
  "opt_set new old = (case new of Some v \<Rightarrow> v | None \<Rightarrow> old)"

text \<open>\<open>{"$set": payload}\<close> on an address document.\<close>

definition apply_patch :: "AddressPatch \<Rightarrow> Address document \<Rightarrow> Address document" where
  "apply_patch p d =
     d\<lparr>body := \<lparr>a_user_id = opt_set (set_user_id p) (a_user_id (body d)),
                a_name = opt_set (set_name p) (a_name (body d)),
                mobile = opt_set (set_mobile p) (mobile (body d)),
                pincode = opt_set (set_pincode p) (pincode (body d)),
                street = opt_set (set_street p) (street (body d)),
                city = opt_set (set_city p) (city (body d)),
                is_default = opt_set (set_is_default p) (is_default (body d))\<rparr>\<rparr>"


section \<open>Handlers\<close>

text \<open>
  A handler takes the database, what the environment supplies (the identifier
  the store will assign and the time, where the handler inserts) and the
  request. It returns the database after the call and either the exception
  raised or the value of the response. Nothing is rolled back when an exception
  is raised, so the database returned with an exception holds the writes made
  before it. Calls are handled one at a time, to completion.
\<close>

subsection \<open>Cart\<close>

text \<open>
  The constructor of \<open>CartItem\<close> validates \<open>qty >= 1\<close> and \<open>price >= 0\<close>.
\<close>

definition CartItemSchema ::
  "string \<Rightarrow> string \<Rightarrow> string \<Rightarrow> string option \<Rightarrow> string \<Rightarrow> int \<Rightarrow> pyfloat
     \<Rightarrow> error + CartItem" where
  "CartItemSchema uid pid pname img var q pr =
     (if 1 \<le> q \<and> float_ge0 pr
      then Inr \<lparr>c_user_id = uid, product_id = pid, product_name = pname,
                image_url = img, variant = var, qty = q, price = pr\<rparr>
      else Inl ValidationError)"

definition same_line :: "AddToCartRequest \<Rightarrow> CartItem document \<Rightarrow> bool" where
  "same_line payload d =
     (c_user_id (body d) = r_user_id payload \<and>
      product_id (body d) = r_product_id payload \<and>
      variant (body d) = r_variant payload)"

definition set_qty :: "int \<Rightarrow> CartItem document \<Rightarrow> CartItem document" where
  "set_qty q d = d\<lparr>body := (body d)\<lparr>qty := q\<rparr>\<rparr>"

definition add_to_cart ::
  "database \<Rightarrow> objectid \<Rightarrow> int \<Rightarrow> AddToCartRequest \<Rightarrow> database \<times> (error + string)" where
  "add_to_cart db new_id now payload =
     (case oid (r_product_id payload) of
        Inl e \<Rightarrow> (db, Inl e)
      | Inr pid \<Rightarrow>
          (case find_one (\<lambda>d. doc_id d = Oid pid) (db_product db) of
             None \<Rightarrow> (db, Inl (HTTPException 404 ''Product not found''))
           | Some product \<Rightarrow>
               let unit_price = calc_price (price_per_kg (body product)) (r_variant payload);
                   existing = find_one (same_line payload) (db_cartitem db)
               in (case existing of
                     Some ex \<Rightarrow>
                       let new_qty = max 1 (qty (body ex) + r_qty payload);
                           res = update_one (\<lambda>d. doc_id d = doc_id ex) (set_qty new_qty)
                                   (db_cartitem db)
                       in (db\<lparr>db_cartitem := fst res\<rparr>, Inr (py_str (doc_id ex)))
                   | None \<Rightarrow>
                       (case CartItemSchema (r_user_id payload) (r_product_id payload)
                               (p_name (body product)) (p_image_url (body product))
                               (r_variant payload) (r_qty payload) unit_price of
                          Inl e \<Rightarrow> (db, Inl e)
                        | Inr item \<Rightarrow>
                            let res = create_document (db_cartitem db) item new_id now
                            in (db\<lparr>db_cartitem := fst res\<rparr>, Inr (snd res))))))"

definition update_cart_qty :: "database \<Rightarrow> string \<Rightarrow> int \<Rightarrow> database \<times> (error + bool)" where
  "update_cart_qty db item_id q =
     (if q < 1 then (db, Inl (HTTPException 400 ''Quantity must be >= 1''))
      else case oid item_id of
             Inl e \<Rightarrow> (db, Inl e)
           | Inr i \<Rightarrow>
               let res = update_one (\<lambda>d. doc_id d = Oid i) (set_qty q) (db_cartitem db)
               in if snd res = 0
                  then (db\<lparr>db_cartitem := fst res\<rparr>,
                        Inl (HTTPException 404 ''Cart item not found''))
                  else (db\<lparr>db_cartitem := fst res\<rparr>, Inr True))"

definition remove_cart_item :: "database \<Rightarrow> string \<Rightarrow> database \<times> (error + bool)" where
  "remove_cart_item db item_id =
     (case oid item_id of
        Inl e \<Rightarrow> (db, Inl e)
      | Inr i \<Rightarrow>
          let res = delete_one (\<lambda>d. doc_id d = Oid i) (db_cartitem db)
          in if snd res = 0
             then (db\<lparr>db_cartitem := fst res\<rparr>,
                   Inl (HTTPException 404 ''Cart item not found''))
             else (db\<lparr>db_cartitem := fst res\<rparr>, Inr True))"

subsection \<open>Addresses\<close>

definition clear_default :: "Address document \<Rightarrow> Address document" where
  "clear_default d = d\<lparr>body := (body d)\<lparr>is_default := False\<rparr>\<rparr>"

definition set_default_address :: "string \<Rightarrow> User document \<Rightarrow> User document" where
  "set_default_address a d = d\<lparr>body := (body d)\<lparr>default_address_id := Some a\<rparr>\<rparr>"

definition create_address ::
  "database \<Rightarrow> objectid \<Rightarrow> int \<Rightarrow> Address \<Rightarrow> database \<times> (error + string)" where
  "create_address db new_id now payload =
     (let res = create_document (db_address db) payload new_id now;
          db1 = db\<lparr>db_address := fst res\<rparr>;
          addr_id = snd res
      in if is_default payload
         then (case oid addr_id of
                 Inl e \<Rightarrow> (db1, Inl e)
               | Inr a \<Rightarrow>
                   let db2 = db1\<lparr>db_address :=
                               fst (update_many
                                      (\<lambda>d. a_user_id (body d) = a_user_id payload \<and>
                                           doc_id d \<noteq> Oid a)
                                      clear_default (db_address db1))\<rparr>
                   in (case oid (a_user_id payload) of
                         Inl e \<Rightarrow> (db2, Inl e)
                       | Inr u \<Rightarrow>
                           (db2\<lparr>db_user :=
                                  fst (update_one (\<lambda>d. doc_id d = Oid u)
                                         (set_default_address addr_id) (db_user db2))\<rparr>,
                            Inr addr_id)))
         else (db1, Inr addr_id))"

definition update_address ::
  "database \<Rightarrow> string \<Rightarrow> AddressPatch \<Rightarrow> database \<times> (error + bool)" where
  "update_address db address_id payload =
     (if patch_empty payload then (db, Inr True)
      else case oid address_id of
             Inl e \<Rightarrow> (db, Inl e)
           | Inr a \<Rightarrow>
               let db1 = db\<lparr>db_address :=
                           fst (update_one (\<lambda>d. doc_id d = Oid a) (apply_patch payload)
                                  (db_address db))\<rparr>
               in if set_is_default payload = Some True
                  then (case find_one (\<lambda>d. doc_id d = Oid a) (db_address db1) of
                          None \<Rightarrow> (db1, Inr True)
                        | Some addr \<Rightarrow>
                            let db2 = db1\<lparr>db_address :=
                                        fst (update_many
                                               (\<lambda>d. a_user_id (body d) = a_user_id (body addr) \<and>
                                                    doc_id d \<noteq> Oid a)
                                               clear_default (db_address db1))\<rparr>
                            in (case oid (a_user_id (body addr)) of
                                  Inl e \<Rightarrow> (db2, Inl e)
                                | Inr u \<Rightarrow>
                                    (db2\<lparr>db_user :=
                                           fst (update_one (\<lambda>d. doc_id d = Oid u)
                                                  (set_default_address address_id)
                                                  (db_user db2))\<rparr>,
                                     Inr True)))
                  else (db1, Inr True))"

definition delete_address :: "database \<Rightarrow> string \<Rightarrow> database \<times> (error + bool)" where
  "delete_address db address_id =
     (case oid address_id of
        Inl e \<Rightarrow> (db, Inl e)
      | Inr a \<Rightarrow>
          let res = delete_one (\<lambda>d. doc_id d = Oid a) (db_address db)
          in if snd res = 0
             then (db\<lparr>db_address := fst res\<rparr>,
                   Inl (HTTPException 404 ''Address not found''))
             else (db\<lparr>db_address := fst res\<rparr>, Inr True))"

subsection \<open>Orders\<close>

definition ORDER_STATUSES :: "string list" where
  "ORDER_STATUSES = [''Order Placed'', ''Packed'', ''On The Way'', ''Delivered'']"

text \<open>
  The loop of \<open>create_order\<close> over the cart, \<open>tot\<close> being the accumulator \<open>total\<close>:
  \<open>total += float(price) * int(qty)\<close>. Multiplying a float by an integer
  converts the integer first.
\<close>

fun cart_total :: "CartItem document list \<Rightarrow> pyfloat \<Rightarrow> error + pyfloat" where
  "cart_total [] tot = Inr tot"
| "cart_total (it # cart) tot =
     (case float_of_int (qty (body it)) of
        Inl e \<Rightarrow> Inl e
      | Inr q \<Rightarrow> cart_total cart (fadd tot (fmul (price (body it)) q)))"

definition create_order ::
  "database \<Rightarrow> objectid \<Rightarrow> int \<Rightarrow> CreateOrderRequest \<Rightarrow> database \<times> (error + string)" where
  "create_order db new_id now payload =
     (let user_id = co_user_id payload;
          cart = find_many (\<lambda>d. c_user_id (body d) = user_id) (db_cartitem db)
      in if cart = [] then (db, Inl (HTTPException 400 ''Cart is empty''))
         else case cart_total cart (Fin 0) of
                Inl e \<Rightarrow> (db, Inl e)
              | Inr tot \<Rightarrow>
                  let order = \<lparr>o_user_id = user_id, items = cart,
                               o_address_id = co_address_id payload,
                               payment_method = co_payment_method payload,
                               total_amount = py_round tot 2,
                               status = ORDER_STATUSES ! 0,
                               eta = ''30-45 mins''\<rparr>;
                      res = create_document (db_order db) order new_id now;
                      db1 = db\<lparr>db_order := fst res\<rparr>
                  in (db1\<lparr>db_cartitem :=
                            fst (delete_many (\<lambda>d. c_user_id (body d) = user_id)
                                   (db_cartitem db1))\<rparr>,
                      Inr (snd res)))"

definition list_orders :: "database \<Rightarrow> string \<Rightarrow> Order document list" where
  "list_orders db user_id =
     map encode_order
       (sort_created_desc (find_many (\<lambda>d. o_user_id (body d) = user_id) (db_order db)))"

record tracking =
  t_status :: string
  steps :: "string list"
  active_index :: nat
  t_eta :: string
  location :: "pyfloat \<times> pyfloat"

definition track_order :: "database \<Rightarrow> string \<Rightarrow> error + tracking" where
  "track_order db order_id =
     (case oid order_id of
        Inl e \<Rightarrow> Inl e
      | Inr i \<Rightarrow>
          (case find_one (\<lambda>d. doc_id d = Oid i) (db_order db) of
             None \<Rightarrow> Inl (HTTPException 404 ''Order not found'')
           | Some ord \<Rightarrow>
               (case list_index ORDER_STATUSES (status (body ord)) of
                  Inl e \<Rightarrow> Inl e
                | Inr idx \<Rightarrow>
                    Inr \<lparr>t_status = status (body ord), steps = ORDER_STATUSES,
                         active_index = idx, t_eta = eta (body ord),
                         location = (nearest_double (129716 / 10000),
                                     nearest_double (775946 / 10000))\<rparr>)))"

definition set_status :: "string \<Rightarrow> Order document \<Rightarrow> Order document" where
  "set_status s d = d\<lparr>body := (body d)\<lparr>status := s\<rparr>\<rparr>"

text \<open>
  \<open>advance_order\<close> catches the ValueError of the lookup and takes index 0. The
  index \<open>min(idx + 1, len(ORDER_STATUSES) - 1)\<close> is within the list.
\<close>

definition advance_order :: "database \<Rightarrow> string \<Rightarrow> database \<times> (error + string)" where
  "advance_order db order_id =
     (case oid order_id of
        Inl e \<Rightarrow> (db, Inl e)
      | Inr i \<Rightarrow>
          (case find_one (\<lambda>d. doc_id d = Oid i) (db_order db) of
             None \<Rightarrow> (db, Inl (HTTPException 404 ''Order not found''))
           | Some ord \<Rightarrow>
               let idx = (case list_index ORDER_STATUSES (status (body ord)) of
                            Inl e \<Rightarrow> 0 | Inr n \<Rightarrow> n);
                   new_status = ORDER_STATUSES ! min (idx + 1) (length ORDER_STATUSES - 1)
               in (db\<lparr>db_order :=
                         fst (update_one (\<lambda>d. doc_id d = doc_id ord) (set_status new_status)
                                (db_order db))\<rparr>,
                   Inr new_status)))"

section \<open>Sequences of calls\<close>

text \<open>
  The calls that write to the cart, address and order collections, and the
  database after a sequence of them, each call with the identifier and the time
  the environment supplies for it. A call that raises leaves the database as it
  is at the exception. The login and the seeding of the catalogue write to the
  user and product collections only, and the remaining routes only read.
\<close>

datatype request =
    AddToCart AddToCartRequest
  | UpdateCartQty string int
  | RemoveCartItem string
  | CreateAddress Address
  | UpdateAddress string AddressPatch
  | DeleteAddress string
  | CreateOrder CreateOrderRequest
  | AdvanceOrder string

fun handle :: "database \<Rightarrow> objectid \<times> int \<times> request \<Rightarrow> database" where
  "handle db (new_id, now, AddToCart payload) = fst (add_to_cart db new_id now payload)"
| "handle db (new_id, now, UpdateCartQty item_id q) = fst (update_cart_qty db item_id q)"
| "handle db (new_id, now, RemoveCartItem item_id) = fst (remove_cart_item db item_id)"
| "handle db (new_id, now, CreateAddress payload) = fst (create_address db new_id now payload)"
| "handle db (new_id, now, UpdateAddress address_id payload) =
     fst (update_address db address_id payload)"
| "handle db (new_id, now, DeleteAddress address_id) = fst (delete_address db address_id)"
| "handle db (new_id, now, CreateOrder payload) = fst (create_order db new_id now payload)"
| "handle db (new_id, now, AdvanceOrder order_id) = fst (advance_order db order_id)"

definition run :: "database \<Rightarrow> (objectid \<times> int \<times> request) list \<Rightarrow> database" where
  "run db calls = foldl handle db calls"

section \<open>Auxiliary notions for the statements\<close>

text \<open>The status \<open>advance_order\<close> moves to from the status \<open>s\<close>.\<close>

definition next_status :: "string \<Rightarrow> string" where
  "next_status s =
     ORDER_STATUSES !
       min ((case list_index ORDER_STATUSES s of Inl e \<Rightarrow> 0 | Inr n \<Rightarrow> n) + 1)
           (length ORDER_STATUSES - 1)"

text \<open>Every order carries one of the four statuses of the fixed sequence.\<close>

definition statuses_recognized :: "database \<Rightarrow> bool" where
  "statuses_recognized db = list_all (\<lambda>d. status (body d) \<in> set ORDER_STATUSES) (db_order db)"

text \<open>The key of a cart line, and: no two cart lines have the same key.\<close>

definition line_key :: "CartItem document \<Rightarrow> string \<times> string \<times> string" where
  "line_key d = (c_user_id (body d), product_id (body d), variant (body d))"

definition cart_unique :: "database \<Rightarrow> bool" where
  "cart_unique db = distinct (map line_key (db_cartitem db))"

text \<open>At most one address of each user is flagged as the default.\<close>

definition single_default :: "database \<Rightarrow> bool" where
  "single_default db =
     distinct (map (\<lambda>d. a_user_id (body d)) (filter (\<lambda>d. is_default (body d)) (db_address db)))"

section \<open>A sample database\<close>

text \<open>
  Two users with one default address each, the seeded product Tomato, one cart
  line of the first user (Tomato, 500g, five units at 25.0) and two orders of
  the first user, the second carrying a status outside the fixed sequence.
\<close>

definition user1 :: string where "user1 = ''0000000000000000000000a1''"
definition user2 :: string where "user2 = ''0000000000000000000000a2''"
definition tomato :: string where "tomato = ''0000000000000000000000b1''"
definition addr1 :: string where "addr1 = ''0000000000000000000000c1''"
definition addr2 :: string where "addr2 = ''0000000000000000000000c2''"
definition line1 :: string where "line1 = ''0000000000000000000000d1''"
definition order1 :: string where "order1 = ''0000000000000000000000e1''"
definition order2 :: string where "order2 = ''0000000000000000000000e2''"
definition fresh1 :: string where "fresh1 = ''0000000000000000000000f1''"
definition fresh2 :: string where "fresh2 = ''0000000000000000000000f2''"

definition sample_line :: "CartItem document" where
  "sample_line =
     \<lparr>doc_id = Oid (ObjectId line1), created_at = 10,
      body = \<lparr>c_user_id = user1, product_id = tomato, product_name = ''Tomato'',
               image_url = None, variant = ''500g'', qty = 5, price = Fin 25\<rparr>\<rparr>"

definition sample_address :: "string \<Rightarrow> string \<Rightarrow> Address document" where
  "sample_address a u =
     \<lparr>doc_id = Oid (ObjectId a), created_at = 5,
      body = \<lparr>a_user_id = u, a_name = ''Home'', mobile = ''9000000000'',
               pincode = ''560001'', street = ''MG Road'', city = ''Bengaluru'',
               is_default = True\<rparr>\<rparr>"

definition sample_user :: "string \<Rightarrow> string \<Rightarrow> string \<Rightarrow> User document" where
  "sample_user u ph a =
     \<lparr>doc_id = Oid (ObjectId u), created_at = 1,
      body = \<lparr>phone = ph, u_name = None, email = None,
               default_address_id = Some a, token = None\<rparr>\<rparr>"

definition sample_order :: "string \<Rightarrow> int \<Rightarrow> string \<Rightarrow> Order document" where
  "sample_order i t st =
     \<lparr>doc_id = Oid (ObjectId i), created_at = t,
      body = \<lparr>o_user_id = user1, items = [sample_line], o_address_id = addr1,
               payment_method = ''COD'', total_amount = Fin 125, status = st,
               eta = ''30-45 mins''\<rparr>\<rparr>"

definition sample_product :: "Product document" where
  "sample_product =
     \<lparr>doc_id = Oid (ObjectId tomato), created_at = 0,
      body = \<lparr>p_name = ''Tomato'', description = Some ''Juicy farm tomatoes.'',
               price_per_kg = Fin 50, category = ''fruits'', p_image_url = None,
               variants = [''250g'', ''500g'', ''1kg'', ''2kg'']\<rparr>\<rparr>"

definition add_tomato :: "string \<Rightarrow> int \<Rightarrow> AddToCartRequest" where
  "add_tomato v q = \<lparr>r_user_id = user1, r_product_id = tomato, r_variant = v, r_qty = q\<rparr>"

text \<open>An address update whose only entry is \<open>user_id\<close>.\<close>

definition reassign :: "string \<Rightarrow> AddressPatch" where
  "reassign u =
     \<lparr>set_user_id = Some u, set_name = None, set_mobile = None, set_pincode = None,
      set_street = None, set_city = None, set_is_default = None\<rparr>"

text \<open>A new address flagged as the default.\<close>

definition office :: "string \<Rightarrow> Address" where
  "office u =
     \<lparr>a_user_id = u, a_name = ''Office'', mobile = ''9000000000'', pincode = ''560002'',
      street = ''Residency Road'', city = ''Bengaluru'', is_default = True\<rparr>"

definition sample_db :: database where
  "sample_db =
     \<lparr>db_user = [sample_user user1 ''9000000001'' addr1, sample_user user2 ''9000000002'' addr2],
      db_product = [sample_product],
      db_address = [sample_address addr1 user1, sample_address addr2 user2],
      db_cartitem = [sample_line],
      db_order = [sample_order order1 20 ''Order Placed'', sample_order order2 30 ''Cancelled'']\<rparr>"

text \<open>The sample database without the cart line and without orders.\<close>

definition sample_db0 :: database where
  "sample_db0 = sample_db\<lparr>db_cartitem := [], db_order := []\<rparr>"

section \<open>Properties of the pricing calculator\<close>

lemma round_half_even_nonneg: "0 \<le> x \<Longrightarrow> 0 \<le> round_half_even x"
  by (auto simp: round_half_even_def Let_def)

lemma nearest_double_ge0: "0 \<le> q \<Longrightarrow> float_ge0 (nearest_double q)"
  by (auto simp: nearest_double_def Let_def round_half_even_nonneg)

lemma fmul_ge0: "float_ge0 a \<Longrightarrow> 0 < m \<Longrightarrow> float_ge0 (fmul a (Fin m))"
  by (cases a) (auto simp: nearest_double_ge0)

lemma py_round_ge0: "float_ge0 x \<Longrightarrow> float_ge0 (py_round x n)"
  by (cases x) (auto simp: nearest_double_ge0 round_half_even_nonneg)

lemma multiplier_cases:
  "dict_get WEIGHT_MULTIPLIER v (Fin 1) =
     (if v = ''250g'' then Fin (1 / 4) else if v = ''500g'' then Fin (1 / 2)
      else if v = ''1kg'' then Fin 1 else if v = ''2kg'' then Fin 2 else Fin 1)"
  by (simp add: dict_get_def WEIGHT_MULTIPLIER_def)

text \<open>
  C8. For every price per kilogram \<open>p \<ge> 0\<close> (a finite non-negative float or
  plus infinity) and every variant string \<open>v\<close>, \<open>calc_price p v\<close> is the value
  \<open>round(p * m, 2)\<close>, where \<open>m\<close> is 0.25 for 250g, 0.5 for 500g, 1.0 for 1kg, 2.0
  for 2kg and 1.0 for any other string, and it is non-negative. \<open>calc_price\<close> is
  a function of its two arguments and has no failing branch.
\<close>

theorem calc_price_spec:
  "float_ge0 p \<Longrightarrow>
     calc_price p v =
       py_round (fmul p (if v = ''250g'' then Fin (1 / 4) else if v = ''500g'' then Fin (1 / 2)
                         else if v = ''1kg'' then Fin 1 else if v = ''2kg'' then Fin 2
                         else Fin 1)) 2 \<and>
     float_ge0 (calc_price p v)"
  unfolding calc_price_def Let_def multiplier_cases
  by (auto intro!: py_round_ge0 fmul_ge0)

theorem calc_price_spec_witness:
  "float_ge0 (Fin 50) \<and> calc_price (Fin 50) ''500g'' = Fin 25 \<and>
   float_ge0 (calc_price (Fin 50) ''500g'')"
proof -
  have h: "float_ge0 (Fin 50)" by simp
  have v: "calc_price (Fin 50) ''500g'' = Fin 25" by code_simp
  from calc_price_spec [OF h, of "''500g''"]
  have "float_ge0 (calc_price (Fin 50) ''500g'')" by blast
  with h v show ?thesis by blast
qed

section \<open>Properties of the store operations\<close>


lemma find_one_None: "find_one P xs = None \<longleftrightarrow> (\<forall>x\<in>set xs. \<not> P x)"
  by (auto simp: find_one_def find_None_iff)

lemma find_one_Some: "find_one P xs = Some x \<Longrightarrow> P x \<and> x \<in> set xs"
  by (auto simp: find_one_def find_Some_iff)



lemma update_one_distinct:
  "distinct (map doc_id xs) \<Longrightarrow>
   fst (update_one (\<lambda>d. doc_id d = k) f xs) = map (\<lambda>d. if doc_id d = k then f d else d) xs"
proof (induction xs)
  case Nil
  then show ?case by simp
next
  case (Cons x xs)
  show ?case
  proof (cases "doc_id x = k")
    case True
    from Cons.prems have "doc_id x \<notin> doc_id ` set xs" by simp
    with True have "\<forall>d\<in>set xs. doc_id d \<noteq> k" by blast
    then have "map (\<lambda>d. if doc_id d = k then f d else d) xs = xs"
      by (induction xs) auto
    with True show ?thesis by simp
  next
    case False
    with Cons show ?thesis by simp
  qed
qed


lemma sample_oids:
  "oid line1 = Inr (ObjectId line1)" "oid order1 = Inr (ObjectId order1)"
  "oid order2 = Inr (ObjectId order2)" "oid addr1 = Inr (ObjectId addr1)"
  "oid tomato = Inr (ObjectId tomato)" "oid fresh1 = Inr (ObjectId fresh1)"
  "oid fresh2 = Inr (ObjectId fresh2)" "oid user1 = Inr (ObjectId user1)"
  "oid user2 = Inr (ObjectId user2)"
  by (simp_all add: oid_def hexdigit_def lower_hex_def dict_get_def line1_def order1_def
      order2_def addr1_def tomato_def fresh1_def fresh2_def user1_def user2_def)

section \<open>Setting the quantity of a cart line\<close>





section \<open>Advancing the status of an order\<close>


lemma list_index_mem:
  "x \<in> set xs \<Longrightarrow> \<exists>i. list_index xs x = Inr i \<and> i < length xs \<and> xs ! i = x"
  by (induction xs) auto

lemma list_index_not_mem: "x \<notin> set xs \<Longrightarrow> list_index xs x = Inl ValueError"
  by (induction xs) auto


lemma next_status_unrecognized: "s \<notin> set ORDER_STATUSES \<Longrightarrow> next_status s = ''Packed''"
  by (simp add: next_status_def list_index_not_mem) (simp add: ORDER_STATUSES_def)

lemma next_status_recognized: "next_status s \<in> set ORDER_STATUSES"
proof (cases "s \<in> set ORDER_STATUSES")
  case True
  then show ?thesis by (auto simp: ORDER_STATUSES_def next_status_def)
next
  case False
  then show ?thesis by (simp add: next_status_unrecognized) (simp add: ORDER_STATUSES_def)
qed

lemma advance_order_found:
  assumes "oid order_id = Inr i"
    and "find_one (\<lambda>d. doc_id d = Oid i) (db_order db) = Some ord"
  shows "advance_order db order_id =
           (db\<lparr>db_order := fst (update_one (\<lambda>d. doc_id d = Oid i)
                                   (set_status (next_status (status (body ord)))) (db_order db))\<rparr>,
            Inr (next_status (status (body ord))))"
proof -
  from find_one_Some [OF assms(2)] have "doc_id ord = Oid i" by simp
  with assms show ?thesis
    by (simp add: advance_order_def Let_def next_status_def)
qed




lemma update_one_map:
  "(\<And>d. g (f d) = g d) \<Longrightarrow> map g (fst (update_one P f xs)) = map g xs"
  by (induction xs) auto







section \<open>What each handler leaves alone\<close>

lemma update_one_set: "set (fst (update_one P f xs)) \<subseteq> set xs \<union> f ` set xs"
  by (induction xs) auto

lemma delete_one_set: "set (fst (delete_one P xs)) \<subseteq> set xs"
  by (induction xs) auto

lemma frame_add_to_cart:
  "db_order (fst (add_to_cart db n t p)) = db_order db"
  "db_address (fst (add_to_cart db n t p)) = db_address db"
  by (simp_all add: add_to_cart_def Let_def split: sum.splits option.splits)

lemma frame_update_cart_qty:
  "db_order (fst (update_cart_qty db i q)) = db_order db"
  "db_address (fst (update_cart_qty db i q)) = db_address db"
  by (simp_all add: update_cart_qty_def Let_def split: sum.splits)

lemma frame_remove_cart_item:
  "db_order (fst (remove_cart_item db i)) = db_order db"
  "db_address (fst (remove_cart_item db i)) = db_address db"
  by (simp_all add: remove_cart_item_def Let_def split: sum.splits)

lemma frame_create_address:
  "db_order (fst (create_address db n t p)) = db_order db"
  "db_cartitem (fst (create_address db n t p)) = db_cartitem db"
  by (simp_all add: create_address_def Let_def split: sum.splits)

lemma frame_update_address:
  "db_order (fst (update_address db i p)) = db_order db"
  "db_cartitem (fst (update_address db i p)) = db_cartitem db"
  by (simp_all add: update_address_def Let_def split: sum.splits option.splits)

lemma frame_delete_address:
  "db_order (fst (delete_address db i)) = db_order db"
  "db_cartitem (fst (delete_address db i)) = db_cartitem db"
  by (simp_all add: delete_address_def Let_def split: sum.splits)

lemma frame_create_order:
  "db_address (fst (create_order db n t p)) = db_address db"
  by (simp add: create_order_def Let_def split: sum.splits)

lemma frame_advance_order:
  "db_address (fst (advance_order db i)) = db_address db"
  "db_cartitem (fst (advance_order db i)) = db_cartitem db"
  by (simp_all add: advance_order_def Let_def split: sum.splits option.splits)

section \<open>Tracking an order\<close>

lemma statuses_create_order:
  "statuses_recognized db \<Longrightarrow> statuses_recognized (fst (create_order db n t p))"
  by (simp add: statuses_recognized_def create_order_def Let_def create_document_def
      ORDER_STATUSES_def split: sum.splits)

lemma statuses_advance_order:
  assumes "statuses_recognized db"
  shows "statuses_recognized (fst (advance_order db i))"
proof (cases "oid i")
  case (Inl e)
  with assms show ?thesis by (simp add: advance_order_def)
next
  case (Inr k)
  show ?thesis
  proof (cases "find_one (\<lambda>d. doc_id d = Oid k) (db_order db)")
    case None
    with Inr assms show ?thesis by (simp add: advance_order_def)
  next
    case (Some ord)
    let ?s = "next_status (status (body ord))"
    have "set (fst (update_one (\<lambda>d. doc_id d = Oid k) (set_status ?s) (db_order db)))
            \<subseteq> set (db_order db) \<union> set_status ?s ` set (db_order db)"
      by (rule update_one_set)
    moreover have "\<forall>d\<in>set_status ?s ` set (db_order db). status (body d) \<in> set ORDER_STATUSES"
      by (simp add: set_status_def next_status_recognized)
    ultimately show ?thesis using assms Inr Some
      by (auto simp: statuses_recognized_def advance_order_found list_all_iff)
  qed
qed

lemma statuses_handle: "statuses_recognized db \<Longrightarrow> statuses_recognized (handle db c)"
proof -
  assume a: "statuses_recognized db"
  obtain n t r where c: "c = (n, t, r)" by (cases c)
  show ?thesis
    using a unfolding c
    by (cases r)
      (simp_all add: statuses_create_order statuses_advance_order,
       simp_all add: statuses_recognized_def frame_add_to_cart frame_update_cart_qty
         frame_remove_cart_item frame_create_address frame_update_address frame_delete_address)
qed

lemma statuses_run: "statuses_recognized db \<Longrightarrow> statuses_recognized (run db calls)"
  unfolding run_def by (induction calls arbitrary: db) (simp_all add: statuses_handle)

text \<open>
  C10. \<open>track_order\<close> looks the status of the order up in the fixed list without
  a guard. For an order whose status is one of the four recognized strings the
  lookup succeeds and \<open>active_index\<close> is the position of that status. For an
  order whose status is outside the list the call fails with a ValueError that
  nothing catches (an internal error), whereas \<open>advance_order\<close> on the same
  order takes index 0 and returns the status at position 1. The statuses are
  recognized in every database that starts without orders, or with recognized
  statuses only, and is changed by the handlers alone.
\<close>

theorem track_order_spec:
  "(\<forall>i ord. oid order_id = Inr i \<and>
        find_one (\<lambda>d. doc_id d = Oid i) (db_order db) = Some ord \<longrightarrow>
        (status (body ord) \<in> set ORDER_STATUSES \<longrightarrow>
           (\<exists>tr. track_order db order_id = Inr tr \<and> t_status tr = status (body ord) \<and>
                 steps tr = ORDER_STATUSES \<and> active_index tr < length ORDER_STATUSES \<and>
                 ORDER_STATUSES ! active_index tr = status (body ord))) \<and>
        (status (body ord) \<notin> set ORDER_STATUSES \<longrightarrow>
           track_order db order_id = Inl ValueError \<and> internal_error ValueError \<and>
           snd (advance_order db order_id) = Inr (ORDER_STATUSES ! 1))) \<and>
   (statuses_recognized db0 \<longrightarrow> statuses_recognized (run db0 calls)) \<and>
   statuses_recognized (db0\<lparr>db_order := []\<rparr>)"
proof (intro conjI allI impI)
  fix i ord
  assume a: "oid order_id = Inr i \<and> find_one (\<lambda>d. doc_id d = Oid i) (db_order db) = Some ord"
    and m: "status (body ord) \<in> set ORDER_STATUSES"
  from list_index_mem [OF m] obtain k where
    "list_index ORDER_STATUSES (status (body ord)) = Inr k" "k < length ORDER_STATUSES"
    "ORDER_STATUSES ! k = status (body ord)" by blast
  with a show "\<exists>tr. track_order db order_id = Inr tr \<and> t_status tr = status (body ord) \<and>
                 steps tr = ORDER_STATUSES \<and> active_index tr < length ORDER_STATUSES \<and>
                 ORDER_STATUSES ! active_index tr = status (body ord)"
    by (simp add: track_order_def)
next
  fix i ord
  assume a: "oid order_id = Inr i \<and> find_one (\<lambda>d. doc_id d = Oid i) (db_order db) = Some ord"
    and m: "status (body ord) \<notin> set ORDER_STATUSES"
  from a list_index_not_mem [OF m] show "track_order db order_id = Inl ValueError"
    by (simp add: track_order_def)
  show "internal_error ValueError" by simp
  from a m show "snd (advance_order db order_id) = Inr (ORDER_STATUSES ! 1)"
    by (simp add: advance_order_found next_status_unrecognized) (simp add: ORDER_STATUSES_def)
next
  assume "statuses_recognized db0"
  then show "statuses_recognized (run db0 calls)" by (rule statuses_run)
next
  show "statuses_recognized (db0\<lparr>db_order := []\<rparr>)" by (simp add: statuses_recognized_def)
qed


theorem track_order_spec_witness:
  "oid order1 = Inr (ObjectId order1) \<and>
   find_one (\<lambda>d. doc_id d = Oid (ObjectId order1)) (db_order sample_db) =
     Some (sample_order order1 20 ''Order Placed'') \<and>
   status (body (sample_order order1 20 ''Order Placed'')) \<in> set ORDER_STATUSES \<and>
   (\<exists>tr. track_order sample_db order1 = Inr tr \<and> active_index tr < length ORDER_STATUSES \<and>
         ORDER_STATUSES ! active_index tr = ''Order Placed'') \<and>
   oid order2 = Inr (ObjectId order2) \<and>
   find_one (\<lambda>d. doc_id d = Oid (ObjectId order2)) (db_order sample_db) =
     Some (sample_order order2 30 ''Cancelled'') \<and>
   status (body (sample_order order2 30 ''Cancelled'')) \<notin> set ORDER_STATUSES \<and>
   track_order sample_db order2 = Inl ValueError \<and>
   snd (advance_order sample_db order2) = Inr ''Packed'' \<and>
   statuses_recognized sample_db0 \<and>
   statuses_recognized
     (run sample_db0
        [(ObjectId fresh1, 40,
          AddToCart \<lparr>r_user_id = user1, r_product_id = tomato, r_variant = ''1kg'', r_qty = 1\<rparr>),
         (ObjectId fresh2, 41,
          CreateOrder \<lparr>co_user_id = user1, co_address_id = addr1, co_payment_method = ''COD''\<rparr>),
         (ObjectId fresh2, 42, AdvanceOrder fresh2)])"
proof -
  have f1: "find_one (\<lambda>d. doc_id d = Oid (ObjectId order1)) (db_order sample_db) =
             Some (sample_order order1 20 ''Order Placed'')"
    by (simp add: find_one_def sample_db_def sample_order_def)
  have s1: "status (body (sample_order order1 20 ''Order Placed'')) \<in> set ORDER_STATUSES"
    by (simp add: sample_order_def ORDER_STATUSES_def)
  have f2: "find_one (\<lambda>d. doc_id d = Oid (ObjectId order2)) (db_order sample_db) =
             Some (sample_order order2 30 ''Cancelled'')"
    by (simp add: find_one_def sample_db_def sample_order_def order1_def order2_def)
  have s2: "status (body (sample_order order2 30 ''Cancelled'')) \<notin> set ORDER_STATUSES"
    by (simp add: sample_order_def ORDER_STATUSES_def)
  have r0: "statuses_recognized sample_db0"
    by (simp add: statuses_recognized_def sample_db0_def)
  note t1 = track_order_spec [of order1 sample_db sample_db0]
  note t2 = track_order_spec [of order2 sample_db sample_db0]
  from t1 sample_oids(2) f1 s1
  have 1: "\<exists>tr. track_order sample_db order1 = Inr tr \<and> active_index tr < length ORDER_STATUSES \<and>
         ORDER_STATUSES ! active_index tr = status (body (sample_order order1 20 ''Order Placed''))"
    by blast
  from t2 sample_oids(3) f2 s2
  have 2: "track_order sample_db order2 = Inl ValueError \<and>
           snd (advance_order sample_db order2) = Inr (ORDER_STATUSES ! 1)"
    by blast
  from t1 r0 have 3: "statuses_recognized (run sample_db0 calls)" for calls
    using track_order_spec [of order1 sample_db sample_db0 calls] by blast
  have 4: "status (body (sample_order order1 20 ''Order Placed'')) = ''Order Placed''"
    "ORDER_STATUSES ! 1 = ''Packed''"
    by (simp_all add: sample_order_def ORDER_STATUSES_def)
  from f1 s1 f2 s2 r0 1 2 3 sample_oids(2) sample_oids(3) show ?thesis
    unfolding 4 by blast
qed

section \<open>Creating an order\<close>

text \<open>
  C2. When the user of the request has no cart line, \<open>create_order\<close> fails with
  a 400 (InvalidArgument, Cart is empty) and returns the database as it was:
  no order is inserted and no collection is changed.
\<close>

theorem create_order_empty_cart:
  "\<forall>d\<in>set (db_cartitem db). c_user_id (body d) \<noteq> co_user_id payload \<Longrightarrow>
   create_order db new_id now payload = (db, Inl (HTTPException 400 ''Cart is empty'')) \<and>
   InvalidArgument (HTTPException 400 ''Cart is empty'')"
proof -
  assume "\<forall>d\<in>set (db_cartitem db). c_user_id (body d) \<noteq> co_user_id payload"
  then have "find_many (\<lambda>d. c_user_id (body d) = co_user_id payload) (db_cartitem db) = []"
    by (simp add: find_many_def filter_empty_conv)
  then show ?thesis by (simp add: create_order_def Let_def)
qed

theorem create_order_empty_cart_witness:
  "user2 \<notin> (\<lambda>d. c_user_id (body d)) ` set (db_cartitem sample_db) \<and>
   create_order sample_db (ObjectId fresh1) 40
     \<lparr>co_user_id = user2, co_address_id = addr2, co_payment_method = ''UPI''\<rparr> =
     (sample_db, Inl (HTTPException 400 ''Cart is empty''))"
proof -
  have h: "\<forall>d\<in>set (db_cartitem sample_db).
             c_user_id (body d) \<noteq>
             co_user_id \<lparr>co_user_id = user2, co_address_id = addr2, co_payment_method = ''UPI''\<rparr>"
    by (simp add: sample_db_def sample_line_def user1_def user2_def)
  have h': "user2 \<notin> (\<lambda>d. c_user_id (body d)) ` set (db_cartitem sample_db)"
    by (simp add: sample_db_def sample_line_def user1_def user2_def)
  from create_order_empty_cart [OF h, of "ObjectId fresh1" 40] h' show ?thesis by blast
qed

lemma float_of_int_int64:
  "- (2 ^ 63) \<le> n \<Longrightarrow> n < 2 ^ 63 \<Longrightarrow> float_of_int n = Inr (nearest_double (of_int n))"
  by (simp add: float_of_int_def)

lemma cart_total_foldl:
  "\<forall>d\<in>set cart. - (2 ^ 63) \<le> qty (body d) \<and> qty (body d) < 2 ^ 63 \<Longrightarrow>
   cart_total cart acc =
     Inr (foldl fadd acc
            (map (\<lambda>d. fmul (price (body d)) (nearest_double (of_int (qty (body d))))) cart))"
  by (induction cart arbitrary: acc) (simp_all add: float_of_int_int64)

text \<open>
  C1. When the user of the request has at least one cart line (every quantity
  being a 64-bit integer, as the store holds them), \<open>create_order\<close> succeeds and
  returns the id of the new order. The database afterwards is the one before
  with one order appended and the user's cart lines deleted. The new order
  holds the user's cart lines as its items, by value; its total is the float
  sum, taken from 0.0 in the order of the lines, of the price of each line
  times its quantity, rounded to two decimal places; its status is Order Placed
  and its eta is 30-45 mins. No cart line of the user is left, and the cart
  handlers called afterwards leave the orders, this snapshot among them, as
  they are.
\<close>

theorem create_order_spec:
  assumes nonempty: "\<exists>d\<in>set (db_cartitem db). c_user_id (body d) = co_user_id payload"
    and int64: "\<forall>d\<in>set (db_cartitem db). - (2 ^ 63) \<le> qty (body d) \<and> qty (body d) < 2 ^ 63"
  shows
    "create_order db new_id now payload =
       (db\<lparr>db_order :=
             db_order db @
             [\<lparr>doc_id = Oid new_id, created_at = now,
               body =
                 \<lparr>o_user_id = co_user_id payload,
                  items = filter (\<lambda>d. c_user_id (body d) = co_user_id payload) (db_cartitem db),
                  o_address_id = co_address_id payload,
                  payment_method = co_payment_method payload,
                  total_amount =
                    py_round
                      (foldl fadd (Fin 0)
                         (map (\<lambda>d. fmul (price (body d)) (nearest_double (of_int (qty (body d)))))
                            (filter (\<lambda>d. c_user_id (body d) = co_user_id payload)
                               (db_cartitem db)))) 2,
                  status = ''Order Placed'', eta = ''30-45 mins''\<rparr>\<rparr>],
           db_cartitem := filter (\<lambda>d. c_user_id (body d) \<noteq> co_user_id payload) (db_cartitem db)\<rparr>,
        Inr (str_oid new_id)) \<and>
     filter (\<lambda>d. c_user_id (body d) = co_user_id payload)
       (db_cartitem (fst (create_order db new_id now payload))) = [] \<and>
     db_order (fst (add_to_cart (fst (create_order db new_id now payload)) n t p)) =
       db_order (fst (create_order db new_id now payload)) \<and>
     db_order (fst (update_cart_qty (fst (create_order db new_id now payload)) i q)) =
       db_order (fst (create_order db new_id now payload)) \<and>
     db_order (fst (remove_cart_item (fst (create_order db new_id now payload)) i)) =
       db_order (fst (create_order db new_id now payload))"
proof -
  let ?cart = "filter (\<lambda>d. c_user_id (body d) = co_user_id payload) (db_cartitem db)"
  from nonempty have ne: "?cart \<noteq> []" by (simp add: filter_empty_conv)
  from int64 have "\<forall>d\<in>set ?cart. - (2 ^ 63) \<le> qty (body d) \<and> qty (body d) < 2 ^ 63" by simp
  then have tot: "cart_total ?cart (Fin 0) =
     Inr (foldl fadd (Fin 0)
            (map (\<lambda>d. fmul (price (body d)) (nearest_double (of_int (qty (body d))))) ?cart))"
    by (rule cart_total_foldl)
  have st: "ORDER_STATUSES ! 0 = ''Order Placed''" by (simp add: ORDER_STATUSES_def)
  from ne tot st have eq: "create_order db new_id now payload =
       (db\<lparr>db_order :=
             db_order db @
             [\<lparr>doc_id = Oid new_id, created_at = now,
               body =
                 \<lparr>o_user_id = co_user_id payload, items = ?cart,
                  o_address_id = co_address_id payload,
                  payment_method = co_payment_method payload,
                  total_amount =
                    py_round
                      (foldl fadd (Fin 0)
                         (map (\<lambda>d. fmul (price (body d)) (nearest_double (of_int (qty (body d)))))
                            ?cart)) 2,
                  status = ''Order Placed'', eta = ''30-45 mins''\<rparr>\<rparr>],
           db_cartitem := filter (\<lambda>d. c_user_id (body d) \<noteq> co_user_id payload) (db_cartitem db)\<rparr>,
        Inr (str_oid new_id))"
    by (simp add: create_order_def Let_def find_many_def create_document_def delete_many_def)
  then show ?thesis
    by (simp add: filter_empty_conv frame_add_to_cart frame_update_cart_qty
        frame_remove_cart_item)
qed

theorem create_order_spec_witness:
  "db_cartitem sample_db = [sample_line] \<and> c_user_id (body sample_line) = user1 \<and>
   qty (body sample_line) = 5 \<and> price (body sample_line) = Fin 25 \<and>
   create_order sample_db (ObjectId fresh1) 40
     \<lparr>co_user_id = user1, co_address_id = addr1, co_payment_method = ''COD''\<rparr> =
     (sample_db\<lparr>db_order :=
        db_order sample_db @
        [\<lparr>doc_id = Oid (ObjectId fresh1), created_at = 40,
          body = \<lparr>o_user_id = user1, items = [sample_line], o_address_id = addr1,
                   payment_method = ''COD'', total_amount = Fin 125,
                   status = ''Order Placed'', eta = ''30-45 mins''\<rparr>\<rparr>],
        db_cartitem := []\<rparr>,
      Inr fresh1)"
proof -
  let ?p = "\<lparr>co_user_id = user1, co_address_id = addr1, co_payment_method = ''COD''\<rparr>"
  have c: "db_cartitem sample_db = [sample_line]" by (simp add: sample_db_def)
  have l: "c_user_id (body sample_line) = user1" "qty (body sample_line) = 5"
    "price (body sample_line) = Fin 25"
    by (simp_all add: sample_line_def)
  have h1: "\<exists>d\<in>set (db_cartitem sample_db). c_user_id (body d) = co_user_id ?p"
    by (simp add: c l)
  have h2: "\<forall>d\<in>set (db_cartitem sample_db). - (2 ^ 63) \<le> qty (body d) \<and> qty (body d) < 2 ^ 63"
    by (simp add: c l)
  have t: "py_round (fadd (Fin 0) (fmul (Fin 25) (nearest_double 5))) 2 = Fin 125"
    by code_simp
  from create_order_spec [OF h1 h2, of "ObjectId fresh1" 40]
  have "create_order sample_db (ObjectId fresh1) 40 ?p =
     (sample_db\<lparr>db_order :=
        db_order sample_db @
        [\<lparr>doc_id = Oid (ObjectId fresh1), created_at = 40,
          body = \<lparr>o_user_id = user1, items = [sample_line], o_address_id = addr1,
                   payment_method = ''COD'',
                   total_amount = py_round (fadd (Fin 0) (fmul (Fin 25) (nearest_double 5))) 2,
                   status = ''Order Placed'', eta = ''30-45 mins''\<rparr>\<rparr>],
        db_cartitem := []\<rparr>,
      Inr fresh1)"
    by (simp add: c l)
  with c l show ?thesis unfolding t by simp
qed


section \<open>Listing orders\<close>

text \<open>
  C9. \<open>list_orders\<close> returns the orders of the user, each encoded for the
  response, and no other; they are in descending order of the creation stamp,
  the newest first.
\<close>

theorem list_orders_spec:
  "sorted_wrt (\<lambda>a b. created_at b \<le> created_at a) (list_orders db user_id) \<and>
   mset (list_orders db user_id) =
     mset (map encode_order (filter (\<lambda>d. o_user_id (body d) = user_id) (db_order db)))"
proof
  let ?xs = "find_many (\<lambda>d. o_user_id (body d) = user_id) (db_order db)"
  have "sorted (map (\<lambda>d. - created_at d) (sort_created_desc ?xs))"
    by (simp add: sort_created_desc_def)
  then have "sorted_wrt (\<lambda>a b. created_at b \<le> created_at a) (sort_created_desc ?xs)"
    by (simp add: sorted_wrt_map)
  then show "sorted_wrt (\<lambda>a b. created_at b \<le> created_at a) (list_orders db user_id)"
    by (simp add: list_orders_def sorted_wrt_map encode_order_def)
  show "mset (list_orders db user_id) =
     mset (map encode_order (filter (\<lambda>d. o_user_id (body d) = user_id) (db_order db)))"
    by (simp add: list_orders_def sort_created_desc_def find_many_def)
qed


section \<open>Adding to the cart\<close>

lemma calc_price_nonneg: "float_ge0 p \<Longrightarrow> float_ge0 (calc_price p v)"
  unfolding calc_price_def Let_def multiplier_cases
  by (auto intro!: py_round_ge0 fmul_ge0)

lemma same_line_key:
  "same_line payload d \<longleftrightarrow>
     line_key d = (r_user_id payload, r_product_id payload, r_variant payload)"
  by (auto simp: same_line_def line_key_def)

lemma set_qty_eq: "set_qty q = (\<lambda>d. d\<lparr>body := (body d)\<lparr>qty := q\<rparr>\<rparr>)"
  by (rule ext) (simp add: set_qty_def)

lemma line_key_set_qty [simp]: "line_key (set_qty q d) = line_key d"
  by (simp add: line_key_def set_qty_def)

lemma add_to_cart_existing:
  assumes "oid (r_product_id payload) = Inr pid"
    and "find_one (\<lambda>d. doc_id d = Oid pid) (db_product db) = Some product"
    and "find_one (same_line payload) (db_cartitem db) = Some ex"
    and "distinct (map doc_id (db_cartitem db))"
  shows "add_to_cart db new_id now payload =
           (db\<lparr>db_cartitem :=
                 map (\<lambda>d. if doc_id d = doc_id ex
                          then d\<lparr>body := (body d)\<lparr>qty := max 1 (qty (body ex) + r_qty payload)\<rparr>\<rparr>
                          else d)
                   (db_cartitem db)\<rparr>,
            Inr (py_str (doc_id ex)))"
  using assms
  by (simp add: add_to_cart_def Let_def update_one_distinct set_qty_eq)


lemma delete_one_distinct: "distinct (map g xs) \<Longrightarrow> distinct (map g (fst (delete_one P xs)))"
proof (induction xs)
  case Nil
  then show ?case by simp
next
  case (Cons x xs)
  have "set (fst (delete_one P xs)) \<subseteq> set xs" by (rule delete_one_set)
  then have "g ` set (fst (delete_one P xs)) \<subseteq> g ` set xs" by (rule image_mono)
  with Cons show ?case by auto
qed

lemma cart_unique_add_to_cart:
  assumes "cart_unique db"
  shows "cart_unique (fst (add_to_cart db n t p))"
proof (cases "oid (r_product_id p)")
  case (Inl e)
  with assms show ?thesis by (simp add: add_to_cart_def)
next
  case (Inr pid)
  show ?thesis
  proof (cases "find_one (\<lambda>d. doc_id d = Oid pid) (db_product db)")
    case None
    with Inr assms show ?thesis by (simp add: add_to_cart_def)
  next
    case (Some product)
    show ?thesis
    proof (cases "find_one (same_line p) (db_cartitem db)")
      case ex: (Some ex)
      with Inr Some assms show ?thesis
        by (simp add: add_to_cart_def Let_def cart_unique_def update_one_map)
    next
      case None
      then have "(r_user_id p, r_product_id p, r_variant p) \<notin> line_key ` set (db_cartitem db)"
        by (auto simp: find_one_None same_line_key)
      with Inr Some None assms show ?thesis
        by (auto simp: add_to_cart_def Let_def cart_unique_def CartItemSchema_def
            create_document_def line_key_def split: if_splits)
    qed
  qed
qed

lemma cart_unique_update_cart_qty:
  "cart_unique db \<Longrightarrow> cart_unique (fst (update_cart_qty db i q))"
  by (simp add: update_cart_qty_def Let_def cart_unique_def update_one_map split: sum.splits)

lemma cart_unique_remove_cart_item:
  "cart_unique db \<Longrightarrow> cart_unique (fst (remove_cart_item db i))"
  by (simp add: remove_cart_item_def Let_def cart_unique_def delete_one_distinct split: sum.splits)

lemma cart_unique_create_order:
  "cart_unique db \<Longrightarrow> cart_unique (fst (create_order db n t p))"
  by (simp add: create_order_def Let_def cart_unique_def delete_many_def distinct_map_filter
      split: sum.splits)

lemma cart_unique_handle: "cart_unique db \<Longrightarrow> cart_unique (handle db c)"
proof -
  assume a: "cart_unique db"
  obtain n t r where c: "c = (n, t, r)" by (cases c)
  show ?thesis
    using a unfolding c
    by (cases r)
      (simp_all add: cart_unique_add_to_cart cart_unique_update_cart_qty
         cart_unique_remove_cart_item cart_unique_create_order,
       simp_all add: cart_unique_def frame_create_address frame_update_address
         frame_delete_address frame_advance_order)
qed

lemma cart_unique_run: "cart_unique db \<Longrightarrow> cart_unique (run db calls)"
  unfolding run_def by (induction calls arbitrary: db) (simp_all add: cart_unique_handle)

lemma update_one_append_fresh:
  "\<forall>x\<in>set xs. \<not> P x \<Longrightarrow> P y \<Longrightarrow> fst (update_one P f (xs @ [y])) = xs @ [f y]"
  by (induction xs) auto

lemma find_one_append_fresh:
  "\<forall>x\<in>set xs. \<not> P x \<Longrightarrow> P y \<Longrightarrow> find_one P (xs @ [y]) = Some y"
  by (induction xs) (auto simp: find_one_def)

lemma add_to_cart_twice:
  assumes o: "oid (r_product_id payload) = Inr pid"
    and pr: "find_one (\<lambda>d. doc_id d = Oid pid) (db_product db) = Some product"
    and ge: "float_ge0 (price_per_kg (body product))"
    and none: "find_one (same_line payload) (db_cartitem db) = None"
    and q: "r_qty payload = 1"
    and fresh: "\<forall>d\<in>set (db_cartitem db). doc_id d \<noteq> Oid n1"
  shows "db_cartitem (run db [(n1, t1, AddToCart payload), (n2, t2, AddToCart payload)]) =
           db_cartitem db @
           [\<lparr>doc_id = Oid n1, created_at = t1,
             body = \<lparr>c_user_id = r_user_id payload, product_id = r_product_id payload,
                      product_name = p_name (body product),
                      image_url = p_image_url (body product),
                      variant = r_variant payload, qty = 2,
                      price = calc_price (price_per_kg (body product)) (r_variant payload)\<rparr>\<rparr>]"
proof -
  let ?item = "\<lambda>k. \<lparr>c_user_id = r_user_id payload, product_id = r_product_id payload,
                      product_name = p_name (body product),
                      image_url = p_image_url (body product),
                      variant = r_variant payload, qty = k,
                      price = calc_price (price_per_kg (body product)) (r_variant payload)\<rparr>"
  let ?new = "\<lambda>k. \<lparr>doc_id = Oid n1, created_at = t1, body = ?item k\<rparr>"
  define db1 where "db1 = fst (add_to_cart db n1 t1 payload)"
  have v: "CartItemSchema (r_user_id payload) (r_product_id payload) (p_name (body product))
             (p_image_url (body product)) (r_variant payload) (r_qty payload)
             (calc_price (price_per_kg (body product)) (r_variant payload)) = Inr (?item 1)"
    using q calc_price_nonneg [OF ge] by (simp add: CartItemSchema_def)
  have 1: "db1 = db\<lparr>db_cartitem := db_cartitem db @ [?new 1]\<rparr>"
    using o pr none v by (simp add: db1_def add_to_cart_def Let_def create_document_def)
  have nm: "\<forall>x\<in>set (db_cartitem db). \<not> same_line payload x"
    using none by (simp add: find_one_None)
  have sl: "same_line payload (?new 1)" by (simp add: same_line_def)
  have ex: "find_one (same_line payload) (db_cartitem db1) = Some (?new 1)"
    unfolding 1 using find_one_append_fresh [OF nm sl] by simp
  have nf: "\<forall>x\<in>set (db_cartitem db). \<not> doc_id x = Oid n1"
    using fresh by simp
  have up: "fst (update_one (\<lambda>d. doc_id d = Oid n1) (set_qty 2) (db_cartitem db @ [?new 1])) =
              db_cartitem db @ [set_qty 2 (?new 1)]"
    by (rule update_one_append_fresh [OF nf]) simp
  have pr1: "find_one (\<lambda>d. doc_id d = Oid pid) (db_product db1) = Some product"
    unfolding 1 using pr by simp
  have "db_cartitem (fst (add_to_cart db1 n2 t2 payload)) = db_cartitem db @ [set_qty 2 (?new 1)]"
    using o pr1 ex q up by (simp add: add_to_cart_def Let_def 1)
  moreover have "set_qty 2 (?new 1) = ?new 2" by (simp add: set_qty_def)
  moreover have "run db [(n1, t1, AddToCart payload), (n2, t2, AddToCart payload)] =
                   fst (add_to_cart db1 n2 t2 payload)"
    by (simp add: run_def db1_def)
  ultimately show ?thesis by simp
qed


lemma sample_cart_facts:
  "find_one (\<lambda>d. doc_id d = Oid (ObjectId tomato)) (db_product sample_db) = Some sample_product"
  "find_one (\<lambda>d. doc_id d = Oid (ObjectId tomato)) (db_product sample_db0) = Some sample_product"
  "find_one (same_line (add_tomato ''500g'' q)) (db_cartitem sample_db) = Some sample_line"
  "distinct (map doc_id (db_cartitem sample_db))"
  "r_product_id (add_tomato v q) = tomato"
  "r_qty (add_tomato v q) = q"
  by (simp_all add: find_one_def sample_db_def sample_db0_def sample_product_def same_line_def
      add_tomato_def sample_line_def)

text \<open>
  C5. When a cart line with the user, product id and variant of the request
  exists (the product being found and the \<open>_id\<close>s of the cart lines unique),
  \<open>add_to_cart\<close> creates no line: it sets the quantity of that line to the old
  quantity plus the requested one, floored at 1, leaves every other line as it
  is and returns the id of the line. No two cart lines with the same user,
  product id and variant exist after any sequence of calls of the handlers on
  a database that had none, an empty cart collection among them. Two adds of
  the same triple with quantity 1, on a database with no line for the triple
  (the product having a non-negative price and the store assigning an unused
  id), leave exactly one line more than before, the only one of the triple,
  with quantity 2.
\<close>

theorem add_to_cart_merges:
  "(\<forall>pid product ex.
      oid (r_product_id payload) = Inr pid \<and>
      find_one (\<lambda>d. doc_id d = Oid pid) (db_product db) = Some product \<and>
      find_one (same_line payload) (db_cartitem db) = Some ex \<and>
      distinct (map doc_id (db_cartitem db)) \<longrightarrow>
      add_to_cart db new_id now payload =
        (db\<lparr>db_cartitem :=
              map (\<lambda>d. if doc_id d = doc_id ex
                       then d\<lparr>body := (body d)\<lparr>qty := max 1 (qty (body ex) + r_qty payload)\<rparr>\<rparr>
                       else d)
                (db_cartitem db)\<rparr>,
         Inr (py_str (doc_id ex)))) \<and>
   (cart_unique db \<longrightarrow> cart_unique (run db calls)) \<and>
   cart_unique (db\<lparr>db_cartitem := []\<rparr>) \<and>
   (\<forall>pid product.
      oid (r_product_id payload) = Inr pid \<and>
      find_one (\<lambda>d. doc_id d = Oid pid) (db_product db) = Some product \<and>
      float_ge0 (price_per_kg (body product)) \<and>
      find_one (same_line payload) (db_cartitem db) = None \<and>
      r_qty payload = 1 \<and>
      (\<forall>d\<in>set (db_cartitem db). doc_id d \<noteq> Oid new_id) \<longrightarrow>
      db_cartitem (run db [(new_id, now, AddToCart payload), (n2, t2, AddToCart payload)]) =
        db_cartitem db @
        [\<lparr>doc_id = Oid new_id, created_at = now,
          body = \<lparr>c_user_id = r_user_id payload, product_id = r_product_id payload,
                   product_name = p_name (body product),
                   image_url = p_image_url (body product),
                   variant = r_variant payload, qty = 2,
                   price = calc_price (price_per_kg (body product)) (r_variant payload)\<rparr>\<rparr>] \<and>
      length (filter (same_line payload)
                (db_cartitem
                   (run db [(new_id, now, AddToCart payload), (n2, t2, AddToCart payload)]))) = 1)"
proof (intro conjI allI impI)
  fix pid product ex
  assume "oid (r_product_id payload) = Inr pid \<and>
      find_one (\<lambda>d. doc_id d = Oid pid) (db_product db) = Some product \<and>
      find_one (same_line payload) (db_cartitem db) = Some ex \<and>
      distinct (map doc_id (db_cartitem db))"
  then show "add_to_cart db new_id now payload =
        (db\<lparr>db_cartitem :=
              map (\<lambda>d. if doc_id d = doc_id ex
                       then d\<lparr>body := (body d)\<lparr>qty := max 1 (qty (body ex) + r_qty payload)\<rparr>\<rparr>
                       else d)
                (db_cartitem db)\<rparr>,
         Inr (py_str (doc_id ex)))"
    by (simp add: add_to_cart_existing)
next
  assume "cart_unique db"
  then show "cart_unique (run db calls)" by (rule cart_unique_run)
next
  show "cart_unique (db\<lparr>db_cartitem := []\<rparr>)" by (simp add: cart_unique_def)
next
  fix pid product
  assume a: "oid (r_product_id payload) = Inr pid \<and>
      find_one (\<lambda>d. doc_id d = Oid pid) (db_product db) = Some product \<and>
      float_ge0 (price_per_kg (body product)) \<and>
      find_one (same_line payload) (db_cartitem db) = None \<and>
      r_qty payload = 1 \<and>
      (\<forall>d\<in>set (db_cartitem db). doc_id d \<noteq> Oid new_id)"
  then have o: "oid (r_product_id payload) = Inr pid"
    and pr: "find_one (\<lambda>d. doc_id d = Oid pid) (db_product db) = Some product"
    and ge: "float_ge0 (price_per_kg (body product))"
    and none: "find_one (same_line payload) (db_cartitem db) = None"
    and q: "r_qty payload = 1"
    and fresh: "\<forall>d\<in>set (db_cartitem db). doc_id d \<noteq> Oid new_id"
    by blast+
  have tw: "db_cartitem (run db [(new_id, now, AddToCart payload), (n2, t2, AddToCart payload)]) =
        db_cartitem db @
        [\<lparr>doc_id = Oid new_id, created_at = now,
          body = \<lparr>c_user_id = r_user_id payload, product_id = r_product_id payload,
                   product_name = p_name (body product),
                   image_url = p_image_url (body product),
                   variant = r_variant payload, qty = 2,
                   price = calc_price (price_per_kg (body product)) (r_variant payload)\<rparr>\<rparr>]"
    by (rule add_to_cart_twice [OF o pr ge none q fresh])
  then show "db_cartitem (run db [(new_id, now, AddToCart payload), (n2, t2, AddToCart payload)]) =
        db_cartitem db @
        [\<lparr>doc_id = Oid new_id, created_at = now,
          body = \<lparr>c_user_id = r_user_id payload, product_id = r_product_id payload,
                   product_name = p_name (body product),
                   image_url = p_image_url (body product),
                   variant = r_variant payload, qty = 2,
                   price = calc_price (price_per_kg (body product)) (r_variant payload)\<rparr>\<rparr>]" .
  from a have "filter (same_line payload) (db_cartitem db) = []"
    by (simp add: find_one_None filter_empty_conv)
  then show "length (filter (same_line payload)
                (db_cartitem
                   (run db [(new_id, now, AddToCart payload), (n2, t2, AddToCart payload)]))) = 1"
    unfolding tw by (simp add: same_line_def)
qed

theorem add_to_cart_merges_witness:
  "oid tomato = Inr (ObjectId tomato) \<and>
   find_one (\<lambda>d. doc_id d = Oid (ObjectId tomato)) (db_product sample_db) = Some sample_product \<and>
   find_one (same_line (add_tomato ''500g'' 1)) (db_cartitem sample_db) = Some sample_line \<and>
   distinct (map doc_id (db_cartitem sample_db)) \<and>
   add_to_cart sample_db (ObjectId fresh1) 40 (add_tomato ''500g'' 1) =
     (sample_db\<lparr>db_cartitem := [sample_line\<lparr>body := (body sample_line)\<lparr>qty := 6\<rparr>\<rparr>]\<rparr>,
      Inr line1) \<and>
   cart_unique sample_db \<and>
   cart_unique (run sample_db [(ObjectId fresh1, 40, AddToCart (add_tomato ''1kg'' 1)),
                               (ObjectId fresh2, 41, UpdateCartQty line1 3)]) \<and>
   float_ge0 (price_per_kg (body sample_product)) \<and>
   find_one (same_line (add_tomato ''1kg'' 1)) (db_cartitem sample_db0) = None \<and>
   db_cartitem (run sample_db0 [(ObjectId fresh1, 40, AddToCart (add_tomato ''1kg'' 1)),
                                (ObjectId fresh2, 41, AddToCart (add_tomato ''1kg'' 1))]) =
     [\<lparr>doc_id = Oid (ObjectId fresh1), created_at = 40,
       body = \<lparr>c_user_id = user1, product_id = tomato, product_name = ''Tomato'',
                image_url = None, variant = ''1kg'', qty = 2, price = Fin 50\<rparr>\<rparr>]"
proof -
  note m = add_to_cart_merges [of "add_tomato ''500g'' 1" sample_db "ObjectId fresh1" 40]
  have 1: "add_to_cart sample_db (ObjectId fresh1) 40 (add_tomato ''500g'' 1) =
     (sample_db\<lparr>db_cartitem :=
        map (\<lambda>d. if doc_id d = doc_id sample_line
                 then d\<lparr>body := (body d)\<lparr>qty := max 1 (qty (body sample_line) +
                                                     r_qty (add_tomato ''500g'' 1))\<rparr>\<rparr>
                 else d)
          (db_cartitem sample_db)\<rparr>,
      Inr (py_str (doc_id sample_line)))"
    using m sample_oids(5) sample_cart_facts by simp
  have e1: "add_to_cart sample_db (ObjectId fresh1) 40 (add_tomato ''500g'' 1) =
     (sample_db\<lparr>db_cartitem := [sample_line\<lparr>body := (body sample_line)\<lparr>qty := 6\<rparr>\<rparr>]\<rparr>,
      Inr line1)"
    unfolding 1 by (simp add: sample_db_def sample_line_def add_tomato_def)
  have u: "cart_unique sample_db" by (simp add: cart_unique_def sample_db_def)
  from add_to_cart_merges [of "add_tomato ''500g'' 1" sample_db "ObjectId fresh1" 40
      "[(ObjectId fresh1, 40, AddToCart (add_tomato ''1kg'' 1)),
        (ObjectId fresh2, 41, UpdateCartQty line1 3)]"] u
  have 2: "cart_unique (run sample_db [(ObjectId fresh1, 40, AddToCart (add_tomato ''1kg'' 1)),
                               (ObjectId fresh2, 41, UpdateCartQty line1 3)])"
    by blast
  have g: "float_ge0 (price_per_kg (body sample_product))" by (simp add: sample_product_def)
  have n: "find_one (same_line (add_tomato ''1kg'' 1)) (db_cartitem sample_db0) = None"
    by (simp add: find_one_def sample_db0_def)
  have fr: "\<forall>d\<in>set (db_cartitem sample_db0). doc_id d \<noteq> Oid (ObjectId fresh1)"
    by (simp add: sample_db0_def)
  have cp: "calc_price (Fin 50) ''1kg'' = Fin 50" by code_simp
  from add_to_cart_merges [of "add_tomato ''1kg'' 1" sample_db0 "ObjectId fresh1" 40 _
      "ObjectId fresh2" 41] sample_oids(5) sample_cart_facts(2) g n fr
  have "db_cartitem (run sample_db0 [(ObjectId fresh1, 40, AddToCart (add_tomato ''1kg'' 1)),
                                (ObjectId fresh2, 41, AddToCart (add_tomato ''1kg'' 1))]) =
        db_cartitem sample_db0 @
        [\<lparr>doc_id = Oid (ObjectId fresh1), created_at = 40,
          body = \<lparr>c_user_id = r_user_id (add_tomato ''1kg'' 1),
                   product_id = r_product_id (add_tomato ''1kg'' 1),
                   product_name = p_name (body sample_product),
                   image_url = p_image_url (body sample_product),
                   variant = r_variant (add_tomato ''1kg'' 1), qty = 2,
                   price = calc_price (price_per_kg (body sample_product))
                             (r_variant (add_tomato ''1kg'' 1))\<rparr>\<rparr>]"
    by (simp add: sample_cart_facts(5,6))
  then have 3: "db_cartitem (run sample_db0 [(ObjectId fresh1, 40, AddToCart (add_tomato ''1kg'' 1)),
                                (ObjectId fresh2, 41, AddToCart (add_tomato ''1kg'' 1))]) =
     [\<lparr>doc_id = Oid (ObjectId fresh1), created_at = 40,
       body = \<lparr>c_user_id = user1, product_id = tomato, product_name = ''Tomato'',
                image_url = None, variant = ''1kg'', qty = 2, price = Fin 50\<rparr>\<rparr>]"
    by (simp add: add_tomato_def sample_product_def sample_db0_def cp)
  from e1 2 3 u g n sample_oids(5) sample_cart_facts(1,3,4) show ?thesis by simp
qed





section \<open>Default addresses\<close>

text \<open>
  The paths that keep at most one default address per user: deleting an
  address; creating one, the store assigning a well-formed unused id; and an
  update that leaves \<open>user_id\<close> alone, the \<open>_id\<close>s of the addresses being
  unique.
\<close>

lemma delete_one_defaults:
  "distinct (map (\<lambda>d. a_user_id (body d)) (filter (\<lambda>d. is_default (body d)) xs)) \<Longrightarrow>
   distinct (map (\<lambda>d. a_user_id (body d))
               (filter (\<lambda>d. is_default (body d)) (fst (delete_one P xs))))"
proof (induction xs)
  case Nil
  then show ?case by simp
next
  case (Cons x xs)
  have "set (fst (delete_one P xs)) \<subseteq> set xs" by (rule delete_one_set)
  with Cons show ?case by (auto split: if_splits)
qed

lemma single_default_delete_address:
  "single_default db \<Longrightarrow> single_default (fst (delete_address db i))"
  by (simp add: delete_address_def Let_def single_default_def delete_one_defaults
      split: sum.splits)

lemma clear_others_defaults:
  "filter (\<lambda>d. is_default (body d))
     (map (\<lambda>d. if a_user_id (body d) = u then clear_default d else d) xs) =
   filter (\<lambda>d. is_default (body d) \<and> a_user_id (body d) \<noteq> u) xs"
  by (induction xs) (auto simp: clear_default_def)

lemma clear_others_fresh:
  "\<forall>d\<in>set xs. doc_id d \<noteq> k \<Longrightarrow>
   map (\<lambda>d. if a_user_id (body d) = u \<and> doc_id d \<noteq> k then clear_default d else d) xs =
   map (\<lambda>d. if a_user_id (body d) = u then clear_default d else d) xs"
  by (induction xs) auto

lemma defaults_without_user:
  "distinct (map (\<lambda>d. a_user_id (body d)) (filter (\<lambda>d. is_default (body d)) xs)) \<Longrightarrow>
   distinct (map (\<lambda>d. a_user_id (body d))
               (filter (\<lambda>d. is_default (body d) \<and> a_user_id (body d) \<noteq> u) xs))"
  by (induction xs) (auto split: if_splits)

lemma create_address_addresses:
  assumes "oid (str_oid n) = Inr n" and "\<forall>d\<in>set (db_address db). doc_id d \<noteq> Oid n"
  shows "db_address (fst (create_address db n t p)) =
           (if is_default p
            then map (\<lambda>d. if a_user_id (body d) = a_user_id p then clear_default d else d)
                   (db_address db)
            else db_address db) @
           [\<lparr>doc_id = Oid n, created_at = t, body = p\<rparr>]"
  using assms
  by (simp add: create_address_def Let_def create_document_def update_many_def
      clear_others_fresh split: sum.splits)

lemma single_default_create_address:
  assumes "single_default db" and "oid (str_oid n) = Inr n"
    and "\<forall>d\<in>set (db_address db). doc_id d \<noteq> Oid n"
  shows "single_default (fst (create_address db n t p))"
proof (cases "is_default p")
  case False
  with assms show ?thesis
    by (simp add: single_default_def create_address_addresses)
next
  case True
  from assms(1) have "distinct (map (\<lambda>d. a_user_id (body d))
        (filter (\<lambda>d. is_default (body d) \<and> a_user_id (body d) \<noteq> a_user_id p) (db_address db)))"
    unfolding single_default_def by (rule defaults_without_user)
  with True assms(2,3) show ?thesis
    by (auto simp: single_default_def create_address_addresses clear_others_defaults)
qed

lemma patch_keeps_defaults:
  assumes "\<And>d. a_user_id (body (h d)) = a_user_id (body d)"
    and "\<And>d. is_default (body (h d)) \<Longrightarrow> is_default (body d)"
    and "distinct (map (\<lambda>d. a_user_id (body d)) (filter (\<lambda>d. is_default (body d)) xs))"
  shows "distinct (map (\<lambda>d. a_user_id (body d))
                     (filter (\<lambda>d. is_default (body d)) (map (\<lambda>d. if Q d then h d else d) xs)))"
  using assms(3)
proof (induction xs)
  case Nil
  then show ?case by simp
next
  case (Cons x xs)
  then show ?case using assms(1,2) by (auto split: if_splits)
qed


lemma apply_patch_user: "set_user_id p = None \<Longrightarrow> a_user_id (body (apply_patch p d)) = a_user_id (body d)"
  by (simp add: apply_patch_def opt_set_def)

lemma apply_patch_id: "doc_id (apply_patch p d) = doc_id d"
  by (simp add: apply_patch_def)

lemma apply_patch_default:
  "set_is_default p \<noteq> Some True \<Longrightarrow> is_default (body (apply_patch p d)) \<Longrightarrow> is_default (body d)"
  by (cases "set_is_default p") (auto simp: apply_patch_def opt_set_def)

lemma find_one_map_patch:
  "find_one (\<lambda>d. doc_id d = k) (map (\<lambda>d. if doc_id d = k then apply_patch p d else d) xs) =
   map_option (apply_patch p) (find_one (\<lambda>d. doc_id d = k) xs)"
  by (induction xs) (auto simp: find_one_def apply_patch_id)

lemma set_default_keeps_single:
  assumes ids: "distinct (map doc_id xs)"
    and keep: "\<And>d. a_user_id (body (h d)) = a_user_id (body d)"
    and hid: "\<And>d. doc_id (h d) = doc_id d"
    and own: "\<forall>d\<in>set xs. doc_id d = k \<longrightarrow> a_user_id (body d) = u"
    and one: "distinct (map (\<lambda>d. a_user_id (body d)) (filter (\<lambda>d. is_default (body d)) xs))"
  shows "distinct (map (\<lambda>d. a_user_id (body d))
           (filter (\<lambda>d. is_default (body d))
              (map (\<lambda>d. if a_user_id (body d) = u \<and> doc_id d \<noteq> k then clear_default d else d)
                 (map (\<lambda>d. if doc_id d = k then h d else d) xs))))"
  using ids own one
proof (induction xs)
  case Nil
  then show ?case by simp
next
  case (Cons x xs)
  show ?case
  proof (cases "doc_id x = k")
    case True
    with Cons.prems have nk: "\<forall>d\<in>set xs. doc_id d \<noteq> k" by (auto simp: image_iff)
    then have m: "map (\<lambda>d. if doc_id d = k then h d else d) xs = xs"
      by (induction xs) auto
    from Cons.prems have "distinct (map (\<lambda>d. a_user_id (body d))
        (filter (\<lambda>d. is_default (body d)) xs))" by (auto split: if_splits)
    then have "distinct (map (\<lambda>d. a_user_id (body d))
        (filter (\<lambda>d. is_default (body d) \<and> a_user_id (body d) \<noteq> u) xs))"
      by (rule defaults_without_user)
    with True nk Cons.prems show ?thesis
      by (auto simp: m clear_others_fresh clear_others_defaults keep hid)
  next
    case False
    from Cons.prems have ih: "distinct (map (\<lambda>d. a_user_id (body d))
           (filter (\<lambda>d. is_default (body d))
              (map (\<lambda>d. if a_user_id (body d) = u \<and> doc_id d \<noteq> k then clear_default d else d)
                 (map (\<lambda>d. if doc_id d = k then h d else d) xs))))"
      by (intro Cons.IH) (auto split: if_splits)
    show ?thesis
    proof (cases "a_user_id (body x) = u \<or> \<not> is_default (body x)")
      case True
      with False ih show ?thesis by (auto simp: clear_default_def)
    next
      case nu: False
      have "a_user_id (body x) \<notin> (\<lambda>d. a_user_id (body d)) `
              set (filter (\<lambda>d. is_default (body d))
                (map (\<lambda>d. if a_user_id (body d) = u \<and> doc_id d \<noteq> k then clear_default d else d)
                   (map (\<lambda>d. if doc_id d = k then h d else d) xs)))"
      proof
        assume "a_user_id (body x) \<in> (\<lambda>d. a_user_id (body d)) `
              set (filter (\<lambda>d. is_default (body d))
                (map (\<lambda>d. if a_user_id (body d) = u \<and> doc_id d \<noteq> k then clear_default d else d)
                   (map (\<lambda>d. if doc_id d = k then h d else d) xs)))"
        then obtain y where y: "y \<in> set xs"
          and e: "a_user_id (body x) = a_user_id (body
                    ((\<lambda>d. if a_user_id (body d) = u \<and> doc_id d \<noteq> k then clear_default d else d)
                       (if doc_id y = k then h y else y)))"
          and dflt: "is_default (body
                    ((\<lambda>d. if a_user_id (body d) = u \<and> doc_id d \<noteq> k then clear_default d else d)
                       (if doc_id y = k then h y else y)))"
          by auto
        show False
        proof (cases "doc_id y = k")
          case True
          with y Cons.prems(2) have "a_user_id (body y) = u" by simp
          with True e nu show False by (simp add: keep hid clear_default_def split: if_splits)
        next
          case yk: False
          with dflt have "is_default (body y)" "a_user_id (body y) \<noteq> u"
            by (auto simp: clear_default_def split: if_splits)
          with yk e have "a_user_id (body x) = a_user_id (body y)" by simp
          moreover from nu Cons.prems(3) have
            "a_user_id (body x) \<notin> (\<lambda>d. a_user_id (body d)) ` set (filter (\<lambda>d. is_default (body d)) xs)"
            by simp
          ultimately show False using y \<open>is_default (body y)\<close> by (auto simp: image_iff)
        qed
      qed
      with False nu ih show ?thesis by simp
    qed
  qed
qed


lemma single_default_update_address:
  assumes sd: "single_default db"
    and ids: "distinct (map doc_id (db_address db))"
    and same_user: "set_user_id p = None"
  shows "single_default (fst (update_address db i p))"
proof (cases "patch_empty p")
  case True
  with sd show ?thesis by (simp add: update_address_def)
next
  case ne: False
  show ?thesis
  proof (cases "oid i")
    case (Inl e)
    with ne sd show ?thesis by (simp add: update_address_def)
  next
    case (Inr a)
    let ?A1 = "map (\<lambda>d. if doc_id d = Oid a then apply_patch p d else d) (db_address db)"
    have A1: "fst (update_one (\<lambda>d. doc_id d = Oid a) (apply_patch p) (db_address db)) = ?A1"
      using ids by (rule update_one_distinct)
    show ?thesis
    proof (cases "set_is_default p = Some True")
      case False
      have "distinct (map (\<lambda>d. a_user_id (body d)) (filter (\<lambda>d. is_default (body d)) ?A1))"
        using sd unfolding single_default_def
        by (intro patch_keeps_defaults) (auto simp: apply_patch_user [OF same_user]
            dest: apply_patch_default [OF False])
      with ne Inr False show ?thesis
        by (simp add: update_address_def Let_def A1 single_default_def)
    next
      case True
      show ?thesis
      proof (cases "find_one (\<lambda>d. doc_id d = Oid a) (db_address db)")
        case None
        then have "\<forall>d\<in>set (db_address db). doc_id d \<noteq> Oid a" by (simp add: find_one_None)
        then have "?A1 = db_address db" by (induction "db_address db") (auto simp: map_idI)
        with ne Inr True None sd show ?thesis
          by (simp add: update_address_def Let_def A1 find_one_map_patch)
      next
        case (Some d0)
        from find_one_Some [OF Some] have d0: "doc_id d0 = Oid a" "d0 \<in> set (db_address db)"
          by simp_all
        let ?u = "a_user_id (body d0)"
        from ids have inj: "inj_on doc_id (set (db_address db))" by (simp add: distinct_map)
        have own: "\<forall>d\<in>set (db_address db). doc_id d = Oid a \<longrightarrow> a_user_id (body d) = ?u"
        proof (intro ballI impI)
          fix d assume d: "d \<in> set (db_address db)" and "doc_id d = Oid a"
          with d0 have "doc_id d = doc_id d0" by simp
          from inj_onD [OF inj this d d0(2)] show "a_user_id (body d) = ?u" by simp
        qed
        have "distinct (map (\<lambda>d. a_user_id (body d))
           (filter (\<lambda>d. is_default (body d))
              (map (\<lambda>d. if a_user_id (body d) = ?u \<and> doc_id d \<noteq> Oid a then clear_default d else d)
                 ?A1)))"
          using sd unfolding single_default_def
          by (intro set_default_keeps_single ids own)
             (simp_all add: apply_patch_user [OF same_user] apply_patch_id)
        with ne Inr True Some show ?thesis
          by (simp add: update_address_def Let_def A1 find_one_map_patch update_many_def
              single_default_def apply_patch_user [OF same_user] split: sum.splits)
      qed
    qed
  qed
qed

lemma sample_single_default: "single_default sample_db"
  by (simp add: single_default_def sample_db_def sample_address_def user1_def user2_def)

text \<open>
  Creating a second address flagged as the default, for the second user of the
  sample database: the flag of the former default is cleared, the user's
  \<open>default_address_id\<close> becomes the id of the new address, and each user still
  has one default.
\<close>

lemma create_address_sample:
  "create_address sample_db (ObjectId fresh1) 50 (office user2) =
     (sample_db
        \<lparr>db_address :=
           [sample_address addr1 user1, clear_default (sample_address addr2 user2),
            \<lparr>doc_id = Oid (ObjectId fresh1), created_at = 50, body = office user2\<rparr>],
         db_user :=
           [sample_user user1 ''9000000001'' addr1, sample_user user2 ''9000000002'' fresh1]\<rparr>,
      Inr fresh1)"
  by code_simp

lemma create_address_sample_default:
  "single_default (fst (create_address sample_db (ObjectId fresh1) 50 (office user2)))"
  unfolding create_address_sample
  by (simp add: single_default_def sample_address_def office_def clear_default_def
      user1_def user2_def)

text \<open>
  C4 on the code. Both users of the sample database have one default address.
  An update of the first user's address whose only entry is the \<open>user_id\<close> of
  the second user succeeds, moves the address to the second user with its flag
  set, and clears no flag: the second user then has two default addresses.
  \<open>update_address\<close> propagates the exclusivity only when the entry
  \<open>is_default\<close> of the update is true.
\<close>

theorem update_address_reassign_default:
  "single_default sample_db \<and>
   update_address sample_db addr1 (reassign user2) =
     (sample_db\<lparr>db_address := [sample_address addr1 user2, sample_address addr2 user2]\<rparr>,
      Inr True) \<and>
   is_default (body (sample_address addr1 user2)) \<and>
   is_default (body (sample_address addr2 user2)) \<and>
   \<not> single_default (fst (update_address sample_db addr1 (reassign user2)))"
proof -
  have u: "update_address sample_db addr1 (reassign user2) =
     (sample_db\<lparr>db_address := [sample_address addr1 user2, sample_address addr2 user2]\<rparr>,
      Inr True)"
    by (simp add: update_address_def patch_empty_def reassign_def sample_oids Let_def)
       (simp add: sample_db_def sample_address_def apply_patch_def opt_set_def
          addr1_def addr2_def)
  have "\<not> single_default
            (sample_db\<lparr>db_address := [sample_address addr1 user2, sample_address addr2 user2]\<rparr>)"
    by (simp add: single_default_def sample_address_def)
  with u sample_single_default show ?thesis by (simp add: sample_address_def)
qed



end
